theory Spec2Isabelle
  imports Main "HOL-Library.Word" "HOL-Library.Signed_Division"
begin

unbundle bit_operations_syntax

section \<open>Memory and registers\<close>

text \<open>
  \<^verbatim>\<open>Forth.cpp\<close> keeps the whole machine in four globals: the 65536 bytes of
  \<^verbatim>\<open>Memory\<close> and the \<^verbatim>\<open>uint16_t\<close> registers \<^verbatim>\<open>IP\<close>, \<^verbatim>\<open>RSP\<close>, \<^verbatim>\<open>PSP\<close>.
  The record below is that state, together with the two console streams that
  \<^verbatim>\<open>KEY\<close> and \<^verbatim>\<open>EMIT\<close> touch: \<open>wcin\<close> lists the characters still to be read
  (the integer each \<^verbatim>\<open>std::wcin.get()\<close> will return) and \<open>wcout\<close> the cells
  written so far.

  Memory is a total function on 16-bit addresses. An access whose index leaves
  the array (a negative \<^verbatim>\<open>PSP + offset\<close>, or the second byte of a cell at
  \<^verbatim>\<open>0xFFFF\<close>) has no defined behaviour in C++; here the index is reduced modulo
  \<open>2^16\<close>, the silent wrap-around of the specification. On every access that
  stays inside the array the model and the program agree, so a statement
  proved for all states holds in particular on all states where the program's
  behaviour is defined. Multi-byte values are little-endian, as the bytes of
  the \<^verbatim>\<open>Init\<close> image are (\<^verbatim>\<open>1, 0\<close> is the code field of a \<^verbatim>\<open>DOCON\<close> word),
  and \<^verbatim>\<open>int\<close> has 32 bits, as on the platform of \<^verbatim>\<open>__cdecl main\<close>.
\<close>

type_synonym memory = "16 word \<Rightarrow> 8 word"

record machine =
  Memory :: memory
  IP :: "16 word"
  RSP :: "16 word"
  PSP :: "16 word"
  wcin :: "int list"
  wcout :: "16 word list"

text \<open>\<^verbatim>\<open>Mem<int8_t>(addr)\<close>, \<^verbatim>\<open>Mem<int16_t>(addr)\<close> and \<^verbatim>\<open>Mem<uint16_t>(addr)\<close>,
  read and written. The parameter \<^verbatim>\<open>addr\<close> is a \<^verbatim>\<open>uint16_t\<close>, so an \<^verbatim>\<open>int\<close>
  argument such as \<^verbatim>\<open>IP - 2\<close> is reduced modulo \<open>2^16\<close> by the call itself.\<close>

definition Mem8 :: "memory \<Rightarrow> 16 word \<Rightarrow> 8 word" where
  "Mem8 m addr = m addr"

definition Mem16 :: "memory \<Rightarrow> 16 word \<Rightarrow> 16 word" where
  "Mem16 m addr = ucast (m addr) OR push_bit 8 (ucast (m (addr + 1)))"

definition Mem8_upd :: "16 word \<Rightarrow> 8 word \<Rightarrow> memory \<Rightarrow> memory" where
  "Mem8_upd addr v m = m(addr := v)"

definition Mem16_upd :: "16 word \<Rightarrow> 16 word \<Rightarrow> memory \<Rightarrow> memory" where
  "Mem16_upd addr v m = m(addr := ucast v, addr + 1 := ucast (drop_bit 8 v))"

text \<open>A four-byte \<^verbatim>\<open>int\<close> written through \<^verbatim>\<open>*(int*)(&Memory[i])\<close>.\<close>

definition Mem32_upd :: "16 word \<Rightarrow> 32 word \<Rightarrow> memory \<Rightarrow> memory" where
  "Mem32_upd addr v m =
     m(addr := ucast v,
       addr + 1 := ucast (drop_bit 8 v),
       addr + 2 := ucast (drop_bit 16 v),
       addr + 3 := ucast (drop_bit 24 v))"

text \<open>\<^verbatim>\<open>PStack<T>(offset)\<close> and \<^verbatim>\<open>RStack<T>(offset)\<close> name the element at index
  \<^verbatim>\<open>PSP + offset\<close> (\<^verbatim>\<open>RSP + offset\<close>), computed in \<^verbatim>\<open>int\<close> from the unsigned
  register and the signed \<^verbatim>\<open>int16_t\<close> offset.\<close>

definition PStack :: "machine \<Rightarrow> 16 word \<Rightarrow> 16 word" where
  "PStack s offset = word_of_int (uint (PSP s) + sint offset)"

definition RStack :: "machine \<Rightarrow> 16 word \<Rightarrow> 16 word" where
  "RStack s offset = word_of_int (uint (RSP s) + sint offset)"

text \<open>\<^verbatim>\<open>PStack_Push\<close> and \<^verbatim>\<open>RStack_Push\<close> pass the stack pointer itself as the
  offset: \<^verbatim>\<open>PStack<T>(PSP) = Value; PSP += sizeof(T);\<close>. The instances the
  program uses are the two-byte ones and, in \<^verbatim>\<open>DOVAR\<close>, \<^verbatim>\<open>T = int\<close>.\<close>

definition PStack_Push16 :: "16 word \<Rightarrow> machine \<Rightarrow> machine" where
  "PStack_Push16 Value s =
     s\<lparr>Memory := Mem16_upd (PStack s (PSP s)) Value (Memory s), PSP := PSP s + 2\<rparr>"

definition PStack_Push32 :: "32 word \<Rightarrow> machine \<Rightarrow> machine" where
  "PStack_Push32 Value s =
     s\<lparr>Memory := Mem32_upd (PStack s (PSP s)) Value (Memory s), PSP := PSP s + 4\<rparr>"

definition RStack_Push16 :: "16 word \<Rightarrow> machine \<Rightarrow> machine" where
  "RStack_Push16 Value s =
     s\<lparr>Memory := Mem16_upd (RStack s (RSP s)) Value (Memory s), RSP := RSP s + 2\<rparr>"

text \<open>\<^verbatim>\<open>PStack_Pop\<close> and \<^verbatim>\<open>RStack_Pop\<close>: \<^verbatim>\<open>PSP -= sizeof(T); T Value = PStack<T>(PSP);\<close>.
  The result is the value read and the state with the pointer moved.\<close>

definition PStack_Pop16 :: "machine \<Rightarrow> 16 word \<times> machine" where
  "PStack_Pop16 s =
     (let s' = s\<lparr>PSP := PSP s - 2\<rparr>
      in (Mem16 (Memory s') (PStack s' (PSP s')), s'))"

definition RStack_Pop16 :: "machine \<Rightarrow> 16 word \<times> machine" where
  "RStack_Pop16 s =
     (let s' = s\<lparr>RSP := RSP s - 2\<rparr>
      in (Mem16 (Memory s') (RStack s' (RSP s')), s'))"

text \<open>Assignment through the reference \<^verbatim>\<open>PStack<int16_t>(offset)\<close>.\<close>

definition PStack_set :: "16 word \<Rightarrow> 16 word \<Rightarrow> machine \<Rightarrow> machine" where
  "PStack_set offset v s = s\<lparr>Memory := Mem16_upd (PStack s offset) v (Memory s)\<rparr>"

definition PStack_get :: "machine \<Rightarrow> 16 word \<Rightarrow> 16 word" where
  "PStack_get s offset = Mem16 (Memory s) (PStack s offset)"

section \<open>The primitives\<close>

definition DOCOL :: "machine \<Rightarrow> machine" where
  "DOCOL s =
     (let s1 = RStack_Push16 (IP s) s
      in s1\<lparr>IP := Mem16 (Memory s1) (IP s1 - 2) + 2\<rparr>)"

definition DOCON :: "machine \<Rightarrow> machine" where
  "DOCON s = PStack_Push16 (Mem16 (Memory s) (Mem16 (Memory s) (IP s - 2) + 2)) s"

text \<open>In \<^verbatim>\<open>DOVAR\<close> the argument \<^verbatim>\<open>Mem<uint16_t>(IP - 2) + 2\<close> has type \<^verbatim>\<open>int\<close>
  (the \<^verbatim>\<open>uint16_t\<close> is promoted before the addition), so the template argument
  is deduced as \<^verbatim>\<open>T = int\<close>.\<close>

definition DOVAR :: "machine \<Rightarrow> machine" where
  "DOVAR s = PStack_Push32 (ucast (Mem16 (Memory s) (IP s - 2)) + 2) s"

definition EXIT :: "machine \<Rightarrow> machine" where
  "EXIT s = (let (v, s1) = RStack_Pop16 s in s1\<lparr>IP := v\<rparr>)"

definition DROP :: "machine \<Rightarrow> machine" where
  "DROP s = s\<lparr>PSP := PSP s - 2\<rparr>"

text \<open>\<^verbatim>\<open>std::swap(a, b)\<close> is \<^verbatim>\<open>tmp = a; a = b; b = tmp\<close>.\<close>

definition SWAP :: "machine \<Rightarrow> machine" where
  "SWAP s =
     (let tmp = PStack_get s (- 2);
          s1 = PStack_set (- 2) (PStack_get s (- 4)) s
      in PStack_set (- 4) tmp s1)"

definition DUP :: "machine \<Rightarrow> machine" where
  "DUP s = PStack_Push16 (PStack_get s (- 2)) s"

definition ROT :: "machine \<Rightarrow> machine" where
  "ROT s =
     (let t = Mem16 (Memory s) (PSP s - 6);
          m1 = Mem16_upd (PSP s - 6) (Mem16 (Memory s) (PSP s - 4)) (Memory s);
          m2 = Mem16_upd (PSP s - 4) (Mem16 m1 (PSP s - 2)) m1;
          m3 = Mem16_upd (PSP s - 2) t m2
      in s\<lparr>Memory := m3\<rparr>)"

definition OVER :: "machine \<Rightarrow> machine" where
  "OVER s = PStack_Push16 (PStack_get s (- 4)) s"

text \<open>The arithmetic of \<^verbatim>\<open>+=\<close>, \<^verbatim>\<open>-=\<close> and \<^verbatim>\<open>*=\<close> on \<^verbatim>\<open>int16_t\<close> is done in
  \<^verbatim>\<open>int\<close> and the result converted back to 16 bits.\<close>

definition ADD :: "machine \<Rightarrow> machine" where
  "ADD s =
     (let (Value, s1) = PStack_Pop16 s
      in PStack_set (- 2) (word_of_int (sint (PStack_get s1 (- 2)) + sint Value)) s1)"

definition SUB :: "machine \<Rightarrow> machine" where
  "SUB s =
     (let (Value, s1) = PStack_Pop16 s
      in PStack_set (- 2) (word_of_int (sint (PStack_get s1 (- 2)) - sint Value)) s1)"

definition MUL :: "machine \<Rightarrow> machine" where
  "MUL s =
     (let (Value, s1) = PStack_Pop16 s
      in PStack_set (- 2) (word_of_int (sint (PStack_get s1 (- 2)) * sint Value)) s1)"

text \<open>\<^verbatim>\<open>/\<close> and \<^verbatim>\<open>%\<close> of C++ truncate towards zero: \<open>sdiv\<close> and \<open>smod\<close> on
  \<open>int\<close>. Dividing by zero has no defined result (the processor traps); it is
  the one fault a primitive can raise.\<close>

datatype fault = DivideByZero | BadOpcode

definition DIVMOD :: "machine \<Rightarrow> fault + machine" where
  "DIVMOD s =
     (if PStack_get s (- 2) = 0 then Inl DivideByZero
      else
        let Div = (word_of_int (sint (PStack_get s (- 4)) sdiv sint (PStack_get s (- 2))) :: 16 word);
            Mod = (word_of_int (sint (PStack_get s (- 4)) smod sint (PStack_get s (- 2))) :: 16 word);
            s1 = PStack_set (- 4) Mod s
        in Inr (PStack_set (- 2) Div s1))"

definition EQU :: "machine \<Rightarrow> machine" where
  "EQU s =
     (let (Value, s1) = PStack_Pop16 s
      in PStack_set (- 2) (if PStack_get s1 (- 2) = Value then - 1 else 0) s1)"

definition LT :: "machine \<Rightarrow> machine" where
  "LT s =
     (let (Value, s1) = PStack_Pop16 s
      in PStack_set (- 2) (if sint (PStack_get s1 (- 2)) < sint Value then - 1 else 0) s1)"

definition AND_op :: "machine \<Rightarrow> machine" where
  "AND_op s =
     (let (Value, s1) = PStack_Pop16 s
      in PStack_set (- 2) (PStack_get s1 (- 2) AND Value) s1)"

definition OR_op :: "machine \<Rightarrow> machine" where
  "OR_op s =
     (let (Value, s1) = PStack_Pop16 s
      in PStack_set (- 2) (PStack_get s1 (- 2) OR Value) s1)"

definition XOR_op :: "machine \<Rightarrow> machine" where
  "XOR_op s =
     (let (Value, s1) = PStack_Pop16 s
      in PStack_set (- 2) (PStack_get s1 (- 2) XOR Value) s1)"

definition INVERT :: "machine \<Rightarrow> machine" where
  "INVERT s = PStack_set (- 2) (NOT (PStack_get s (- 2))) s"

definition LIT :: "machine \<Rightarrow> machine" where
  "LIT s = (let s1 = PStack_Push16 (Mem16 (Memory s) (IP s)) s in s1\<lparr>IP := IP s1 + 2\<rparr>)"

definition STORE :: "machine \<Rightarrow> machine" where
  "STORE s =
     (let (addr, s1) = PStack_Pop16 s;
          (v, s2) = PStack_Pop16 s1
      in s2\<lparr>Memory := Mem16_upd addr v (Memory s2)\<rparr>)"

definition FETCH :: "machine \<Rightarrow> machine" where
  "FETCH s =
     (let (addr, s1) = PStack_Pop16 s
      in PStack_Push16 (Mem16 (Memory s1) addr) s1)"

text \<open>\<^verbatim>\<open>(int8_t)\<close> of a cell keeps its low byte; \<^verbatim>\<open>(int16_t)\<close> of an \<^verbatim>\<open>int8_t\<close>
  extends its sign.\<close>

definition STOREBYTE :: "machine \<Rightarrow> machine" where
  "STOREBYTE s =
     (let (addr, s1) = PStack_Pop16 s;
          (v, s2) = PStack_Pop16 s1
      in s2\<lparr>Memory := Mem8_upd addr (ucast v) (Memory s2)\<rparr>)"

definition FETCHBYTE :: "machine \<Rightarrow> machine" where
  "FETCHBYTE s =
     (let (addr, s1) = PStack_Pop16 s
      in PStack_Push16 (scast (Mem8 (Memory s1) addr)) s1)"

text \<open>\<^verbatim>\<open>std::wcin.get()\<close> returns the next character, or \<^verbatim>\<open>WEOF\<close> (all bits
  set) once the input has ended; the cast to \<^verbatim>\<open>int16_t\<close> keeps 16 bits.\<close>

definition KEY :: "machine \<Rightarrow> machine" where
  "KEY s =
     (case wcin s of
        [] \<Rightarrow> PStack_Push16 (- 1) s
      | c # cs \<Rightarrow> PStack_Push16 (word_of_int c) (s\<lparr>wcin := cs\<rparr>))"

definition EMIT :: "machine \<Rightarrow> machine" where
  "EMIT s = (let (v, s1) = PStack_Pop16 s in s1\<lparr>wcout := wcout s1 @ [v]\<rparr>)"

definition BRANCH :: "machine \<Rightarrow> machine" where
  "BRANCH s = s\<lparr>IP := word_of_int (uint (IP s) + sint (Mem16 (Memory s) (IP s)))\<rparr>"

definition ZBRANCH :: "machine \<Rightarrow> machine" where
  "ZBRANCH s =
     (let (v, s1) = PStack_Pop16 s
      in if v = 0
         then s1\<lparr>IP := word_of_int (uint (IP s1) + sint (Mem16 (Memory s1) (IP s1)))\<rparr>
         else s1\<lparr>IP := IP s1 + 2\<rparr>)"

definition TOR :: "machine \<Rightarrow> machine" where
  "TOR s = (let (v, s1) = PStack_Pop16 s in RStack_Push16 v s1)"

definition FROMR :: "machine \<Rightarrow> machine" where
  "FROMR s = (let (v, s1) = RStack_Pop16 s in PStack_Push16 v s1)"

definition ADD_STORE :: "machine \<Rightarrow> machine" where
  "ADD_STORE s =
     (let (addr, s1) = PStack_Pop16 s;
          (v, s2) = PStack_Pop16 s1
      in s2\<lparr>Memory := Mem16_upd addr (word_of_int (sint (Mem16 (Memory s2) addr) + sint v)) (Memory s2)\<rparr>)"

definition DSP_FETCH :: "machine \<Rightarrow> machine" where
  "DSP_FETCH s = PStack_Push16 (PSP s) s"

definition DSP_STORE :: "machine \<Rightarrow> machine" where
  "DSP_STORE s = (let (v, s1) = PStack_Pop16 s in s1\<lparr>PSP := v\<rparr>)"

definition RSP_FETCH :: "machine \<Rightarrow> machine" where
  "RSP_FETCH s = PStack_Push16 (RSP s) s"

definition RSP_STORE :: "machine \<Rightarrow> machine" where
  "RSP_STORE s = (let (v, s1) = PStack_Pop16 s in s1\<lparr>RSP := v\<rparr>)"

section \<open>The primitive table and the dispatch loop\<close>

text \<open>\<^verbatim>\<open>NativeFuncs\<close>, in the order of the source. Every entry takes no argument
  and works on the machine state; only \<^verbatim>\<open>DIVMOD\<close> can fault.\<close>

definition NativeFuncs :: "(machine \<Rightarrow> fault + machine) list" where
  "NativeFuncs =
     [Inr \<circ> DOCOL, Inr \<circ> DOCON, Inr \<circ> DOVAR, Inr \<circ> EXIT, Inr \<circ> DROP,
      Inr \<circ> SWAP, Inr \<circ> DUP, Inr \<circ> ROT, Inr \<circ> OVER, Inr \<circ> ADD,
      Inr \<circ> SUB, Inr \<circ> MUL, DIVMOD, Inr \<circ> EQU, Inr \<circ> LT,
      Inr \<circ> AND_op, Inr \<circ> OR_op, Inr \<circ> XOR_op, Inr \<circ> INVERT, Inr \<circ> LIT,
      Inr \<circ> STORE, Inr \<circ> FETCH, Inr \<circ> STOREBYTE, Inr \<circ> FETCHBYTE, Inr \<circ> KEY,
      Inr \<circ> EMIT, Inr \<circ> BRANCH, Inr \<circ> ZBRANCH, Inr \<circ> TOR, Inr \<circ> FROMR,
      Inr \<circ> ADD_STORE, Inr \<circ> DSP_FETCH, Inr \<circ> DSP_STORE, Inr \<circ> RSP_FETCH,
      Inr \<circ> RSP_STORE]"

text \<open>\<^verbatim>\<open>(*NativeFuncs[id])()\<close>: an index past the table names no primitive.\<close>

definition call_native :: "16 word \<Rightarrow> machine \<Rightarrow> fault + machine" where
  "call_native ident s =
     (if unat ident < length NativeFuncs then (NativeFuncs ! unat ident) s else Inl BadOpcode)"

text \<open>One turn of \<^verbatim>\<open>while (true)\<close> in \<^verbatim>\<open>main\<close>:
  \<^verbatim>\<open>id = Mem<uint16_t>(Mem<uint16_t>(IP)); IP += 2; (*NativeFuncs[id])();\<close>\<close>

definition cycle :: "machine \<Rightarrow> fault + machine" where
  "cycle s =
     (let ident = Mem16 (Memory s) (Mem16 (Memory s) (IP s));
          s1 = s\<lparr>IP := IP s + 2\<rparr>
      in call_native ident s1)"

text \<open>The loop has no exit of its own; \<open>run n\<close> is its first \<open>n\<close> turns, stopping
  early only at a fault.\<close>

fun run :: "nat \<Rightarrow> machine \<Rightarrow> fault + machine" where
  "run 0 s = Inr s"
| "run (Suc n) s = (case cycle s of Inl e \<Rightarrow> Inl e | Inr s' \<Rightarrow> run n s')"

text \<open>The dispatch cycle as the specification words it, step by step: read
  \<open>target\<close> at \<open>IP\<close>, advance \<open>IP\<close> by 2, then read \<open>opcode\<close> at \<open>target\<close>
  (from the state with the advanced \<open>IP\<close>), then invoke \<open>primitives[opcode]\<close>.\<close>

definition cycle_spec :: "machine \<Rightarrow> fault + machine" where
  "cycle_spec s =
     (let target = Mem16 (Memory s) (IP s);
          s1 = s\<lparr>IP := IP s + 2\<rparr>;
          opcode = Mem16 (Memory s1) target
      in call_native opcode s1)"

text \<open>The registers as \<^verbatim>\<open>main\<close> starts with them (\<^verbatim>\<open>IP = 0x0000\<close>,
  \<^verbatim>\<open>RSP = 0x0000\<close>, \<^verbatim>\<open>PSP = 0x1000\<close>) over a zeroed memory and an empty console.\<close>

definition boot :: machine where
  "boot = \<lparr>Memory = (\<lambda>_. 0), IP = 0, RSP = 0, PSP = 0x1000, wcin = [], wcout = []\<rparr>"

section \<open>Sequences of return-stack operations\<close>

text \<open>What can happen on the return stack between a call and its return: a
  push or a pop of a cell (as \<^verbatim>\<open>TOR\<close> and \<^verbatim>\<open>FROMR\<close> do with \<^verbatim>\<open>RStack_Push\<close>
  and \<^verbatim>\<open>RStack_Pop\<close>), a nested \<^verbatim>\<open>DOCOL\<close>, a nested \<^verbatim>\<open>EXIT\<close>.\<close>

datatype rop = RPush "16 word" | RPop | RCall | RExit

fun rstep :: "rop \<Rightarrow> machine \<Rightarrow> machine" where
  "rstep (RPush v) s = RStack_Push16 v s"
| "rstep RPop s = snd (RStack_Pop16 s)"
| "rstep RCall s = DOCOL s"
| "rstep RExit s = EXIT s"

fun rsteps :: "rop list \<Rightarrow> machine \<Rightarrow> machine" where
  "rsteps [] s = s"
| "rsteps (x # xs) s = rsteps xs (rstep x s)"

fun pushes :: "rop \<Rightarrow> bool" where
  "pushes (RPush v) = True"
| "pushes RPop = False"
| "pushes RCall = True"
| "pushes RExit = False"

text \<open>\<open>matched d ops\<close>: starting with \<open>d\<close> cells above the saved one, every pop
  of \<open>ops\<close> finds a cell pushed before it and the sequence ends with none left.
  \<open>depth d ops\<close> is the largest number of cells above the saved one on the way.\<close>

fun matched :: "nat \<Rightarrow> rop list \<Rightarrow> bool" where
  "matched d [] = (d = 0)"
| "matched d (x # xs) =
     (if pushes x then matched (Suc d) xs else 0 < d \<and> matched (d - 1) xs)"

fun depth :: "nat \<Rightarrow> rop list \<Rightarrow> nat" where
  "depth d [] = d"
| "depth d (x # xs) =
     (if pushes x then max d (depth (Suc d) xs) else max d (depth (d - 1) xs))"

text \<open>Two 16-bit cells at addresses \<open>a\<close> and \<open>b\<close> share no byte.\<close>

definition cells_disjoint :: "16 word \<Rightarrow> 16 word \<Rightarrow> bool" where
  "cells_disjoint a b = (a \<noteq> b \<and> a \<noteq> b + 1 \<and> a + 1 \<noteq> b)"

section \<open>Memory and stack lemmas\<close>

lemma PStack_eq: "PStack s off = PSP s + off"
  by (simp add: PStack_def)

lemma RStack_eq: "RStack s off = RSP s + off"
  by (simp add: RStack_def)

lemma cell_bytes:
  "(ucast (ucast v :: 8 word) OR push_bit 8 (ucast (ucast (drop_bit 8 v) :: 8 word)) :: 16 word) = v"
  by (rule bit_word_eqI) (auto simp: bit_simps)

lemma Mem16_upd_same: "Mem16 (Mem16_upd a v m) a = v"
  by (simp add: Mem16_def Mem16_upd_def cell_bytes)

lemma Mem16_upd_other:
  "cells_disjoint a' a \<Longrightarrow> Mem16 (Mem16_upd a' v m) a = Mem16 m a"
  by (auto simp add: Mem16_def Mem16_upd_def cells_disjoint_def)

lemma PStack_Push16_eq:
  "PStack_Push16 v s = s\<lparr>Memory := Mem16_upd (PSP s + PSP s) v (Memory s), PSP := PSP s + 2\<rparr>"
  by (simp add: PStack_Push16_def PStack_eq)

lemma RStack_Push16_eq:
  "RStack_Push16 v s = s\<lparr>Memory := Mem16_upd (RSP s + RSP s) v (Memory s), RSP := RSP s + 2\<rparr>"
  by (simp add: RStack_Push16_def RStack_eq)

lemma PStack_Pop16_eq:
  "PStack_Pop16 s = (Mem16 (Memory s) ((PSP s - 2) + (PSP s - 2)), s\<lparr>PSP := PSP s - 2\<rparr>)"
  by (simp add: PStack_Pop16_def PStack_eq Let_def)

lemma RStack_Pop16_eq:
  "RStack_Pop16 s = (Mem16 (Memory s) ((RSP s - 2) + (RSP s - 2)), s\<lparr>RSP := RSP s - 2\<rparr>)"
  by (simp add: RStack_Pop16_def RStack_eq Let_def)

lemma PStack_Pop_Push: "PStack_Pop16 (PStack_Push16 v s) = (v, (PStack_Push16 v s)\<lparr>PSP := PSP s\<rparr>)"
  by (simp add: PStack_Pop16_eq PStack_Push16_eq Mem16_upd_same)

lemma RStack_Pop_Push: "RStack_Pop16 (RStack_Push16 v s) = (v, (RStack_Push16 v s)\<lparr>RSP := RSP s\<rparr>)"
  by (simp add: RStack_Pop16_eq RStack_Push16_eq Mem16_upd_same)

lemma quad_unat:
  assumes "k < 16384"
  shows "unat (4 * of_nat k :: 16 word) = 4 * k"
proof -
  have "(4 * of_nat k :: 16 word) = of_nat (4 * k)" by simp
  moreover have "unat (of_nat (4 * k) :: 16 word) = 4 * k"
    using assms by (simp only: unat_of_nat) simp
  ultimately show ?thesis by simp
qed

lemma quad_disjoint:
  assumes "0 < k" "k < 16384"
  shows "cells_disjoint (a + 4 * of_nat k) a"
proof -
  let ?w = "4 * of_nat k :: 16 word"
  have u: "unat ?w = 4 * k" by (rule quad_unat [OF assms(2)])
  have "?w \<noteq> 0" using u assms by (metis mult_is_0 not_less_zero unat_0 zero_neq_numeral less_numeral_extra(3))
  moreover have "?w \<noteq> 1" 
  proof
    assume "?w = 1" then have "unat ?w = 1" by simp
    with u show False by presburger
  qed
  moreover have "?w \<noteq> - 1"
  proof
    assume "?w = - 1"
    moreover have "(- 1 :: 16 word) = 65535" by simp
    ultimately have "?w = 65535" by simp
    then have "unat ?w = unat (65535 :: 16 word)" by (rule arg_cong)
    then have "unat ?w = 65535" by simp
    with u show False by presburger
  qed
  ultimately show ?thesis 
    by (simp add: cells_disjoint_def add_eq_0_iff2 add.assoc)
qed

section \<open>Matched sequences on the return stack\<close>

text \<open>A push at \<open>d + 1\<close> cells above a saved cell writes \<open>4 * (d + 1)\<close> bytes
  above it (pointers are doubled), which stays clear of the saved cell as long
  as \<open>d + 1\<close> is below 16384.\<close>

lemma depth_ge: "d \<le> depth d ops"
  by (cases ops) auto

lemma DOCOL_eq:
  "DOCOL s = s\<lparr>Memory := Mem16_upd (RSP s + RSP s) (IP s) (Memory s), RSP := RSP s + 2,
       IP := Mem16 (Mem16_upd (RSP s + RSP s) (IP s) (Memory s)) (IP s - 2) + 2\<rparr>"
  by (simp add: DOCOL_def RStack_Push16_eq Let_def)

lemma EXIT_eq:
  "EXIT s = s\<lparr>RSP := RSP s - 2, IP := Mem16 (Memory s) ((RSP s - 2) + (RSP s - 2))\<rparr>"
  by (simp add: EXIT_def RStack_Pop16_eq)

lemma rstep_push:
  "pushes x \<Longrightarrow> \<exists>v. Memory (rstep x t) = Mem16_upd (RSP t + RSP t) v (Memory t)
      \<and> RSP (rstep x t) = RSP t + 2"
  by (cases x) (auto simp: RStack_Push16_eq DOCOL_eq)

lemma rstep_pop:
  "\<not> pushes x \<Longrightarrow> Memory (rstep x t) = Memory t \<and> RSP (rstep x t) = RSP t - 2"
  by (cases x) (auto simp: RStack_Pop16_eq EXIT_eq)

lemma saved_cell_kept:
  "matched d ops \<Longrightarrow> depth d ops < 16384 \<Longrightarrow> RSP t = p + 2 + 2 * of_nat d \<Longrightarrow>
   Mem16 (Memory t) (p + p) = v \<Longrightarrow>
   RSP (rsteps ops t) = p + 2 \<and> Mem16 (Memory (rsteps ops t)) (p + p) = v"
proof (induction ops arbitrary: d t)
  case Nil
  then show ?case by simp
next
  case (Cons x xs)
  show ?case
  proof (cases "pushes x")
    case True
    from Cons.prems True have m: "matched (Suc d) xs" and dp: "depth (Suc d) xs < 16384"
      by simp_all
    from dp depth_ge [of "Suc d" xs] have lt: "Suc d < 16384" by linarith
    from rstep_push [OF True, of t] obtain w where
      mem: "Memory (rstep x t) = Mem16_upd (RSP t + RSP t) w (Memory t)" and
      rsp: "RSP (rstep x t) = RSP t + 2" by blast
    have addr: "RSP t + RSP t = (p + p) + 4 * of_nat (Suc d)"
      using Cons.prems(3) by simp
    have dis: "cells_disjoint (RSP t + RSP t) (p + p)"
      unfolding addr by (rule quad_disjoint) (use lt in simp_all)
    have 1: "RSP (rstep x t) = p + 2 + 2 * of_nat (Suc d)"
      using rsp Cons.prems(3) by simp
    have 2: "Mem16 (Memory (rstep x t)) (p + p) = v"
      unfolding mem using Cons.prems(4) by (simp only: Mem16_upd_other [OF dis])
    from Cons.IH [OF m dp 1 2] show ?thesis by simp
  next
    case False
    from Cons.prems False have pos: "0 < d" and m: "matched (d - 1) xs"
      and dp: "depth (d - 1) xs < 16384" by simp_all
    from pos have nat: "(of_nat d :: 16 word) = of_nat (d - 1) + 1"
      by (cases d) simp_all
    from rstep_pop [OF False, of t] have
      mem: "Memory (rstep x t) = Memory t" and rsp: "RSP (rstep x t) = RSP t - 2" by simp_all
    have 1: "RSP (rstep x t) = p + 2 + 2 * of_nat (d - 1)"
      using rsp Cons.prems(3) nat by simp
    have 2: "Mem16 (Memory (rstep x t)) (p + p) = v"
      using mem Cons.prems(4) by simp
    from Cons.IH [OF m dp 1 2] show ?thesis by simp
  qed
qed

lemma DOCOL_EXIT: "IP (EXIT (DOCOL s)) = IP s \<and> RSP (EXIT (DOCOL s)) = RSP s"
  by (simp add: DOCOL_eq EXIT_eq Mem16_upd_same)

lemma nested_return:
  assumes "matched 0 ops" "depth 0 ops < 16384"
  shows "IP (EXIT (rsteps ops (DOCOL s))) = IP s \<and> RSP (EXIT (rsteps ops (DOCOL s))) = RSP s"
proof -
  have 1: "RSP (DOCOL s) = RSP s + 2 + 2 * of_nat 0" by (simp add: DOCOL_eq)
  have 2: "Mem16 (Memory (DOCOL s)) (RSP s + RSP s) = IP s"
    by (simp add: DOCOL_eq Mem16_upd_same)
  from saved_cell_kept [OF assms 1 2] show ?thesis
    by (simp add: EXIT_eq)
qed

text \<open>\<open>n\<close> pushes followed by \<open>n\<close> pops; when \<open>4 * n\<close> is a multiple of \<open>2^16\<close>
  the last push lands on the cell saved by the call.\<close>

lemma rsteps_append: "rsteps (xs @ ys) s = rsteps ys (rsteps xs s)"
  by (induction xs arbitrary: s) simp_all

lemma matched_pops: "matched d (replicate n RPop) = (d = n)"
proof (induction n arbitrary: d)
  case 0
  show ?case by simp
next
  case (Suc n)
  have "matched d (replicate (Suc n) RPop) = (0 < d \<and> d - 1 = n)"
    by (simp add: Suc.IH)
  also have "\<dots> = (d = Suc n)" by (cases d) auto
  finally show ?case .
qed

lemma matched_pushes: "matched d (replicate n (RPush v) @ ys) = matched (d + n) ys"
  by (induction n arbitrary: d) simp_all

lemma rsteps_pops: "rsteps (replicate n RPop) s = s\<lparr>RSP := RSP s - 2 * of_nat n\<rparr>"
  by (induction n arbitrary: s) (simp_all add: RStack_Pop16_eq algebra_simps)

lemma rsteps_pushes_RSP: "RSP (rsteps (replicate n (RPush v)) s) = RSP s + 2 * of_nat n"
  by (induction n arbitrary: s) (simp_all add: RStack_Push16_eq algebra_simps)

lemma rsteps_pushes_last:
  "Mem16 (Memory (rsteps (replicate (Suc n) (RPush v)) s))
     ((RSP s + 2 * of_nat n) + (RSP s + 2 * of_nat n)) = v"
proof -
  have "replicate (Suc n) (RPush v) = replicate n (RPush v) @ [RPush v]"
    by (simp add: replicate_append_same)
  then have "rsteps (replicate (Suc n) (RPush v)) s
      = RStack_Push16 v (rsteps (replicate n (RPush v)) s)"
    by (simp only: rsteps_append rsteps.simps rstep.simps)
  then show ?thesis
    by (simp only: RStack_Push16_eq rsteps_pushes_RSP) (simp add: Mem16_upd_same)
qed

lemma matched_pushes_pops: "matched 0 (replicate n (RPush v) @ replicate n RPop)"
  by (simp add: matched_pushes matched_pops)

lemma wrapped_return:
  assumes n: "n = Suc k" and wrap: "(4 * of_nat n :: 16 word) = 0"
  shows "IP (EXIT (rsteps (replicate n (RPush v) @ replicate n RPop) (DOCOL s))) = v"
proof -
  let ?t = "rsteps (replicate n (RPush v)) (DOCOL s)"
  have r1: "RSP (DOCOL s) = RSP s + 2" by (simp add: DOCOL_eq)
  have rt: "RSP ?t = RSP s + 2 + 2 * of_nat n"
    by (simp only: rsteps_pushes_RSP r1)
  have "(RSP (DOCOL s) + 2 * of_nat k) + (RSP (DOCOL s) + 2 * of_nat k)
      = RSP s + RSP s + 4 * of_nat n"
    unfolding r1 n by simp
  also have "\<dots> = RSP s + RSP s" unfolding wrap by simp
  finally have a: "(RSP (DOCOL s) + 2 * of_nat k) + (RSP (DOCOL s) + 2 * of_nat k)
      = RSP s + RSP s" .
  have m: "Mem16 (Memory ?t) (RSP s + RSP s) = v"
    using rsteps_pushes_last [of k v "DOCOL s"] unfolding a n [symmetric] .
  have "rsteps (replicate n (RPush v) @ replicate n RPop) (DOCOL s)
      = ?t\<lparr>RSP := RSP s + 2\<rparr>"
    by (simp only: rsteps_append rsteps_pops rt) simp
  then show ?thesis using m by (simp add: EXIT_eq)
qed

section \<open>Push and pop (claim C10)\<close>

lemma sint_cases16:
  "sint (p::16 word) = (if uint p < 32768 then uint p else uint p - 65536)"
proof (cases "uint p < 32768")
  case True
  have a: "- (2 ^ 15) \<le> uint p"
    by (rule order_trans [of _ 0]) simp_all
  have b: "uint p < 2 ^ 15" using True by simp
  have "signed_take_bit 15 (uint p) = uint p"
    by (rule signed_take_bit_int_eq_self [OF a b])
  with True show ?thesis by (simp only: sint_uint if_True) simp
next
  case False
  have lt: "uint p < 65536" using uint_lt2p [of p] by simp
  have a: "- (2 ^ 15) \<le> uint p - 65536" using False by simp
  have b: "uint p - 65536 < 2 ^ 15" using lt by simp
  have "take_bit 16 (uint p) = take_bit 16 (uint p - 65536)"
    unfolding take_bit_eq_mod by (simp add: mod_diff_right_eq)
  then have "signed_take_bit 15 (uint p) = signed_take_bit 15 (uint p - 65536)"
    by (simp only: signed_take_bit_eq_iff_take_bit_eq) simp
  also have "\<dots> = uint p - 65536"
    by (rule signed_take_bit_int_eq_self [OF a b])
  finally show ?thesis using False by (simp only: sint_uint if_False) simp
qed

lemma index_in_range: "uint (p::16 word) + sint p = uint (p + p)"
proof -
  have lt: "uint p < 65536" using uint_lt2p [of p] by simp
  have ge: "0 \<le> uint p" by simp
  have u: "uint (p + p) = (uint p + uint p) mod 65536"
    by (simp add: uint_word_ariths)
  show ?thesis
  proof (cases "uint p < 32768")
    case True
    then have "(uint p + uint p) mod 65536 = uint p + uint p"
      using ge by (intro mod_pos_pos_trivial) linarith+
    with True show ?thesis unfolding u sint_cases16 by simp
  next
    case False
    have "(uint p + uint p - 65536) mod 65536 = uint p + uint p - 65536"
      using False lt by (intro mod_pos_pos_trivial) linarith+
    moreover have "(uint p + uint p - 65536) mod 65536 = (uint p + uint p) mod 65536"
      by (simp add: mod_diff_right_eq)
    ultimately show ?thesis using False unfolding u sint_cases16 by simp
  qed
qed

text \<open>
  Claim C10, as amended. For every stack-pointer value \<open>p\<close>, on either stack: the
  index \<^verbatim>\<open>p + (int16_t)p\<close> that a push computes is the number \<open>p + p\<close> modulo
  \<open>2^16\<close> (it never leaves the array); a 16-bit push writes the value at that
  address and then advances the pointer by 2; a pop first subtracts 2 and reads
  at the new pointer doubled in the same way; so an immediate pop returns the
  value just pushed and restores the pointer. The address \<open>p + p\<close> is not the
  address \<open>p\<close> exactly when \<open>p\<close> is not 0.
\<close>

theorem push_pop_doubled_address:
  "uint (PSP s) + sint (PSP s) = uint (PSP s + PSP s) \<and>
   uint (RSP s) + sint (RSP s) = uint (RSP s + RSP s) \<and>
   PStack_Push16 v s
     = s\<lparr>Memory := Mem16_upd (PSP s + PSP s) v (Memory s), PSP := PSP s + 2\<rparr> \<and>
   RStack_Push16 v s
     = s\<lparr>Memory := Mem16_upd (RSP s + RSP s) v (Memory s), RSP := RSP s + 2\<rparr> \<and>
   PStack_Pop16 s = (Mem16 (Memory s) ((PSP s - 2) + (PSP s - 2)), s\<lparr>PSP := PSP s - 2\<rparr>) \<and>
   RStack_Pop16 s = (Mem16 (Memory s) ((RSP s - 2) + (RSP s - 2)), s\<lparr>RSP := RSP s - 2\<rparr>) \<and>
   PStack_Pop16 (PStack_Push16 v s) = (v, (PStack_Push16 v s)\<lparr>PSP := PSP s\<rparr>) \<and>
   RStack_Pop16 (RStack_Push16 v s) = (v, (RStack_Push16 v s)\<lparr>RSP := RSP s\<rparr>) \<and>
   (PSP s + PSP s = PSP s) = (PSP s = 0) \<and>
   (RSP s + RSP s = RSP s) = (RSP s = 0)"
  by (simp only: index_in_range PStack_Push16_eq [symmetric] RStack_Push16_eq [symmetric]
        PStack_Pop16_eq [symmetric] RStack_Pop16_eq [symmetric] PStack_Pop_Push RStack_Pop_Push)
     simp

text \<open>
  Claim C10 as stated says the value is never stored at the stack-pointer
  address itself. With \<^verbatim>\<open>RSP = 0\<close>, the value \<^verbatim>\<open>main\<close> starts with, the push
  writes at address \<open>0 + 0\<close>, which is the stack pointer.
\<close>

theorem push_at_pointer_counterexample:
  "RSP boot = 0 \<and>
   Memory (RStack_Push16 0x1234 boot) = Mem16_upd (RSP boot) 0x1234 (Memory boot) \<and>
   Mem16 (Memory (RStack_Push16 0x1234 boot)) (RSP boot) = 0x1234"
  by (simp add: boot_def RStack_Push16_eq Mem16_upd_same)

section \<open>The dispatch cycle (claim C1)\<close>

text \<open>
  Claim C1. For every machine state, one turn of the loop is the cycle of the
  specification: read \<open>target\<close> at \<open>IP\<close>, advance \<open>IP\<close> by 2, read \<open>opcode\<close> at
  \<open>target\<close>, invoke entry \<open>opcode\<close> of the table of 35 primitives on the state,
  in which nothing but \<open>IP\<close> has changed. (The program reads \<open>opcode\<close> before it
  advances \<open>IP\<close>; the order does not matter.) An opcode beyond the table names
  no primitive. Every further turn of the loop is such a cycle again.
\<close>

theorem dispatch_cycle:
  "cycle s = cycle_spec s \<and>
   length NativeFuncs = 35 \<and>
   cycle s =
     (if unat (Mem16 (Memory s) (Mem16 (Memory s) (IP s))) < 35
      then (NativeFuncs ! unat (Mem16 (Memory s) (Mem16 (Memory s) (IP s)))) (s\<lparr>IP := IP s + 2\<rparr>)
      else Inl BadOpcode) \<and>
   run (Suc n) s = (case cycle_spec s of Inl e \<Rightarrow> Inl e | Inr s' \<Rightarrow> run n s')"
proof -
  have len: "length NativeFuncs = 35" by (simp add: NativeFuncs_def)
  have eq: "cycle s = cycle_spec s" by (simp add: cycle_def cycle_spec_def Let_def)
  have "cycle s =
     (if unat (Mem16 (Memory s) (Mem16 (Memory s) (IP s))) < 35
      then (NativeFuncs ! unat (Mem16 (Memory s) (Mem16 (Memory s) (IP s)))) (s\<lparr>IP := IP s + 2\<rparr>)
      else Inl BadOpcode)"
    by (simp add: cycle_def call_native_def len Let_def)
  moreover have "run (Suc n) s = (case cycle_spec s of Inl e \<Rightarrow> Inl e | Inr s' \<Rightarrow> run n s')"
    by (simp only: run.simps eq)
  ultimately show ?thesis using len eq by blast
qed

section \<open>Constants and variables (claims C5 and C4)\<close>

lemma DOVAR_eq:
  "DOVAR s = s\<lparr>Memory := Mem32_upd (PSP s + PSP s) (ucast (Mem16 (Memory s) (IP s - 2)) + 2) (Memory s),
      PSP := PSP s + 4\<rparr>"
  by (simp add: DOVAR_def PStack_Push32_def PStack_eq)

text \<open>
  Claim C5. For every machine state, with \<open>target\<close> the cell at \<open>IP - 2\<close>:
  \<^verbatim>\<open>DOCON\<close> pushes the one 16-bit cell stored at \<open>target + 2\<close> onto the
  parameter stack (a pop returns it), increases \<open>PSP\<close> by 2 and leaves \<open>IP\<close> and
  \<open>RSP\<close> alone. \<^verbatim>\<open>DOVAR\<close> leaves \<open>IP\<close> alone too; \<^verbatim>\<open>DOCOL\<close> assigns \<open>IP\<close>, and
  changes it, for one, in the starting state.
\<close>

theorem DOCON_pushes_body_cell:
  "DOCON s = PStack_Push16 (Mem16 (Memory s) (Mem16 (Memory s) (IP s - 2) + 2)) s \<and>
   Memory (DOCON s)
     = Mem16_upd (PSP s + PSP s) (Mem16 (Memory s) (Mem16 (Memory s) (IP s - 2) + 2)) (Memory s) \<and>
   PSP (DOCON s) = PSP s + 2 \<and>
   fst (PStack_Pop16 (DOCON s)) = Mem16 (Memory s) (Mem16 (Memory s) (IP s - 2) + 2) \<and>
   RSP (DOCON s) = RSP s \<and>
   IP (DOCON s) = IP s \<and>
   IP (DOVAR s) = IP s \<and>
   IP (DOCOL s) = Mem16 (Memory (DOCOL s)) (IP s - 2) + 2 \<and>
   IP (DOCOL boot) \<noteq> IP boot"
proof -
  have "IP (DOCOL boot) \<noteq> IP boot"
    by (simp add: DOCOL_eq boot_def Mem16_def Mem16_upd_def)
  then show ?thesis
    by (simp add: DOCON_def PStack_Pop_Push DOVAR_eq) (simp add: PStack_Push16_eq DOCOL_eq)
qed

section \<open>Branches (claim C7)\<close>

lemma BRANCH_eq: "BRANCH s = s\<lparr>IP := IP s + Mem16 (Memory s) (IP s)\<rparr>"
  by (simp add: BRANCH_def)

lemma ZBRANCH_eq:
  "ZBRANCH s =
     (if fst (PStack_Pop16 s) = 0
      then s\<lparr>PSP := PSP s - 2, IP := IP s + Mem16 (Memory s) (IP s)\<rparr>
      else s\<lparr>PSP := PSP s - 2, IP := IP s + 2\<rparr>)"
  by (simp add: ZBRANCH_def PStack_Pop16_eq)

text \<open>
  Claim C7. In every state where the loop has just consumed a branch opcode
  cell at address \<open>A\<close> (so \<open>IP = A + 2\<close>) and the cell at \<open>A + 2\<close> holds \<open>V\<close>:
  \<^verbatim>\<open>BRANCH\<close> sets \<open>IP\<close> to \<open>(A + 2) + V\<close>, with \<open>V\<close> read as a signed number and
  the sum taken modulo \<open>2^16\<close>, and changes nothing else; \<^verbatim>\<open>ZBRANCH\<close> pops one
  parameter-stack cell and sets \<open>IP\<close> to \<open>(A + 2) + V\<close> if that cell is zero and
  to \<open>A + 4\<close> otherwise.
\<close>

theorem branch_offsets:
  assumes "IP s = A + 2" and "Mem16 (Memory s) (A + 2) = V"
  shows "BRANCH s = s\<lparr>IP := (A + 2) + V\<rparr> \<and>
         (A + 2) + V = word_of_int (uint A + 2 + sint V) \<and>
         ZBRANCH s = (snd (PStack_Pop16 s))
            \<lparr>IP := if fst (PStack_Pop16 s) = 0 then (A + 2) + V else A + 4\<rparr> \<and>
         PSP (ZBRANCH s) = PSP s - 2"
proof -
  have "(A + 2) + V = word_of_int (uint A + 2 + sint V)" by simp
  then show ?thesis using assms
    by (simp add: BRANCH_eq ZBRANCH_eq PStack_Pop16_eq)
qed

text \<open>
  The witness: \<open>A = 0x3000\<close> and \<open>V = -44\<close> (the offset of \<^verbatim>\<open>REPEAT\<close> in the
  image's \<^verbatim>\<open>CMOVE\<close>), with nothing, a zero and a 7 pushed before the branch.
\<close>

theorem branch_offsets_witness:
  "IP (boot\<lparr>Memory := Mem16_upd 0x3002 (- 44) (Memory boot), IP := 0x3002\<rparr>) = 0x3000 + 2 \<and>
   Mem16 (Memory (boot\<lparr>Memory := Mem16_upd 0x3002 (- 44) (Memory boot), IP := 0x3002\<rparr>))
     (0x3000 + 2) = - 44 \<and>
   IP (BRANCH (boot\<lparr>Memory := Mem16_upd 0x3002 (- 44) (Memory boot), IP := 0x3002\<rparr>)) = 0x2FD6 \<and>
   IP (ZBRANCH (PStack_Push16 0
     (boot\<lparr>Memory := Mem16_upd 0x3002 (- 44) (Memory boot), IP := 0x3002\<rparr>))) = 0x2FD6 \<and>
   IP (ZBRANCH (PStack_Push16 7
     (boot\<lparr>Memory := Mem16_upd 0x3002 (- 44) (Memory boot), IP := 0x3002\<rparr>))) = 0x3004"
proof -
  let ?b = "boot\<lparr>Memory := Mem16_upd 0x3002 (- 44) (Memory boot), IP := 0x3002\<rparr>"
  have dis: "cells_disjoint (0x2000 :: 16 word) 0x3002" by (simp add: cells_disjoint_def)
  have 1: "IP ?b = 0x3000 + 2" by simp
  have 2: "Mem16 (Memory ?b) (0x3000 + 2) = - 44" by (simp add: Mem16_upd_same)
  have 3: "IP (PStack_Push16 v ?b) = 0x3000 + 2" for v by (simp add: PStack_Push16_eq)
  have 4: "Mem16 (Memory (PStack_Push16 v ?b)) (0x3000 + 2) = - 44" for v
    by (simp add: PStack_Push16_eq boot_def Mem16_upd_same Mem16_upd_other [OF dis])
  show ?thesis
    using branch_offsets [OF 1 2] branch_offsets [OF 3 4, of 0] branch_offsets [OF 3 4, of 7] 1 2
    by (simp add: PStack_Pop_Push)
qed

section \<open>Byte store and byte fetch (claim C8)\<close>

lemma STOREBYTE_eq:
  "STOREBYTE s =
     s\<lparr>PSP := PSP s - 4,
       Memory := (Memory s)(fst (PStack_Pop16 s) := ucast (fst (PStack_Pop16 (snd (PStack_Pop16 s)))))\<rparr>"
  by (simp add: STOREBYTE_def PStack_Pop16_eq Mem8_upd_def)

lemma FETCHBYTE_top:
  "fst (PStack_Pop16 (FETCHBYTE t)) = scast (Memory t (fst (PStack_Pop16 t))) \<and>
   PSP (FETCHBYTE t) = PSP t"
proof -
  obtain a t1 where p: "PStack_Pop16 t = (a, t1)" by (cases "PStack_Pop16 t")
  then have t1: "Memory t1 = Memory t" "PSP t1 = PSP t - 2"
    by (auto simp: PStack_Pop16_eq)
  show ?thesis
    by (simp add: FETCHBYTE_def p PStack_Pop_Push Mem8_def t1) (simp add: PStack_Push16_eq t1)
qed

text \<open>
  Claim C8. For every address \<open>a\<close> and every cell \<open>x\<close>: executed in a state
  whose parameter stack holds \<open>x\<close> and, on top of it, \<open>a\<close> (two pops return \<open>a\<close>,
  then \<open>x\<close>), \<^verbatim>\<open>C!\<close> writes the low byte of \<open>x\<close> to \<open>Memory[a]\<close>, changes no other
  byte and takes both cells off. A later \<^verbatim>\<open>C@\<close> of address \<open>a\<close>, that is one
  executed in any state \<open>t\<close> with \<open>a\<close> on top of the stack and that byte still at
  \<open>a\<close>, replaces \<open>a\<close> by the byte sign-extended to 16 bits: for the byte \<open>0xFF\<close>
  the cell \<open>-1\<close>, not \<open>255\<close>.
\<close>

theorem byte_store_fetch:
  assumes "PStack_Pop16 s = (a, s1)" and "PStack_Pop16 s1 = (x, s2)"
  shows "Memory (STOREBYTE s) = (Memory s)(a := ucast x) \<and>
         PSP (STOREBYTE s) = PSP s - 4 \<and>
         (\<forall>t. fst (PStack_Pop16 t) = a \<and> Memory t a = Memory (STOREBYTE s) a \<longrightarrow>
            fst (PStack_Pop16 (FETCHBYTE t)) = scast (ucast x :: 8 word) \<and>
            PSP (FETCHBYTE t) = PSP t \<and>
            ((ucast x :: 8 word) = 0xFF \<longrightarrow>
               fst (PStack_Pop16 (FETCHBYTE t)) = - 1 \<and>
               fst (PStack_Pop16 (FETCHBYTE t)) \<noteq> 255))"
proof -
  have st: "Memory (STOREBYTE s) = (Memory s)(a := ucast x)" "PSP (STOREBYTE s) = PSP s - 4"
    using assms by (simp_all add: STOREBYTE_eq)
  have "(scast (0xFF :: 8 word) :: 16 word) = - 1" by simp
  moreover have "(- 1 :: 16 word) \<noteq> 255" by simp
  ultimately show ?thesis
    by (auto simp add: st FETCHBYTE_top)
qed

text \<open>
  The witness: \<open>x = 0x12FF\<close> and \<open>a = 0x3000\<close> pushed in the starting state,
  \<^verbatim>\<open>C!\<close>, then \<open>a\<close> pushed again and \<^verbatim>\<open>C@\<close>.
\<close>

theorem byte_store_fetch_witness:
  "PStack_Pop16 (PStack_Push16 0x3000 (PStack_Push16 0x12FF boot))
     = (0x3000, (PStack_Push16 0x3000 (PStack_Push16 0x12FF boot))\<lparr>PSP := 0x1002\<rparr>) \<and>
   PStack_Pop16 ((PStack_Push16 0x3000 (PStack_Push16 0x12FF boot))\<lparr>PSP := 0x1002\<rparr>)
     = (0x12FF, (PStack_Push16 0x3000 (PStack_Push16 0x12FF boot))\<lparr>PSP := 0x1000\<rparr>) \<and>
   Memory (STOREBYTE (PStack_Push16 0x3000 (PStack_Push16 0x12FF boot))) 0x3000 = 0xFF \<and>
   fst (PStack_Pop16 (PStack_Push16 0x3000
          (STOREBYTE (PStack_Push16 0x3000 (PStack_Push16 0x12FF boot))))) = 0x3000 \<and>
   fst (PStack_Pop16 (FETCHBYTE (PStack_Push16 0x3000
          (STOREBYTE (PStack_Push16 0x3000 (PStack_Push16 0x12FF boot)))))) = - 1"
proof -
  let ?s = "PStack_Push16 0x3000 (PStack_Push16 0x12FF boot)"
  let ?t = "PStack_Push16 0x3000 (STOREBYTE ?s)"
  have psp: "PSP (PStack_Push16 0x12FF boot) = 0x1002" by (simp add: PStack_Push16_eq boot_def)
  have 1: "PStack_Pop16 ?s = (0x3000, ?s\<lparr>PSP := 0x1002\<rparr>)"
    by (simp only: PStack_Pop_Push psp)
  have dis: "cells_disjoint (0x2004 :: 16 word) 0x2000" by (simp add: cells_disjoint_def)
  have 2: "PStack_Pop16 (?s\<lparr>PSP := 0x1002\<rparr>) = (0x12FF, ?s\<lparr>PSP := 0x1000\<rparr>)"
    by (simp add: PStack_Pop16_eq PStack_Push16_eq boot_def Mem16_upd_same Mem16_upd_other [OF dis])
  note th = byte_store_fetch [OF 1 2]
  have top: "fst (PStack_Pop16 ?t) = 0x3000" by (simp add: PStack_Pop_Push)
  have m: "Memory (STOREBYTE ?s) 0x3000 = 0xFF" using th by simp
  have pst: "PSP (STOREBYTE ?s) = 0x1000"
    using th by (simp add: PStack_Push16_eq boot_def)
  have "Memory ?t = Mem16_upd 0x2000 0x3000 (Memory (STOREBYTE ?s))"
    by (simp only: PStack_Push16_eq [of _ "STOREBYTE ?s"] pst) simp
  then have keep: "Memory ?t 0x3000 = Memory (STOREBYTE ?s) 0x3000"
    by (simp add: Mem16_upd_def)
  have x: "(ucast (0x12FF :: 16 word) :: 8 word) = 0xFF" by simp
  from th top keep x have "fst (PStack_Pop16 (FETCHBYTE ?t)) = - 1" by blast
  with 1 2 m top show ?thesis by simp
qed

section \<open>Divide and modulo (claim C6)\<close>

lemma PStack_get_eq: "PStack_get s off = Mem16 (Memory s) (PSP s + off)"
  by (simp add: PStack_get_def PStack_eq)

lemma PStack_set_eq: "PStack_set off v s = s\<lparr>Memory := Mem16_upd (PSP s + off) v (Memory s)\<rparr>"
  by (simp add: PStack_set_def PStack_eq)

lemma sint_range16: "- 32768 \<le> sint (x :: 16 word) \<and> sint x < 32768"
  using sint_ge [of x] sint_lt [of x] by simp

lemma sint_word_of_int16:
  assumes "- 32768 \<le> k" and "k < 32768"
  shows "sint (word_of_int k :: 16 word) = k"
proof -
  have a: "- (2 ^ 15) \<le> k" using assms(1) by simp
  have b: "k < 2 ^ 15" using assms(2) by simp
  have "signed_take_bit 15 k = k" by (rule signed_take_bit_int_eq_self [OF a b])
  then show ?thesis by (simp add: sint_sbintrunc')
qed

lemma smod_fits16:
  assumes "b \<noteq> 0" and "- 32768 \<le> b" and "b < 32768"
  shows "- 32768 \<le> a smod b \<and> a smod b < (32768 :: int)"
  using smod_int_range [OF assms(1), of a] assms(2,3) by auto

lemma sdiv_fits16:
  assumes "b \<noteq> 0" and "- 32768 \<le> a" and "a < 32768" and "\<not> (a = - 32768 \<and> b = - 1)"
  shows "- 32768 \<le> a sdiv b \<and> a sdiv b < (32768 :: int)"
proof -
  have r: "- \<bar>a\<bar> \<le> a sdiv b" "a sdiv b \<le> \<bar>a\<bar>"
    using sdiv_int_range [of a b] by auto
  show ?thesis
  proof (cases "a = - 32768")
    case False
    with assms(2,3) have "\<bar>a\<bar> < 32768" by linarith
    with r assms(2,3) show ?thesis by linarith
  next
    case True
    with assms(4) have b1: "b \<noteq> - 1" by simp
    have low: "- 32768 \<le> a sdiv b" using r True by simp
    show ?thesis
    proof (cases "0 < b")
      case True
      have "0 \<le> \<bar>a\<bar> div \<bar>b\<bar>" using True by (simp add: pos_imp_zdiv_nonneg_iff)
      then have "a sdiv b \<le> 0"
        using \<open>a = - 32768\<close> True by (simp add: signed_divide_int_def)
      with low show ?thesis by simp
    next
      case False
      with assms(1) b1 have "2 \<le> \<bar>b\<bar>" by linarith
      then have "\<bar>a\<bar> div \<bar>b\<bar> \<le> \<bar>a\<bar> div 2"
        by (intro zdiv_mono2) simp_all
      moreover have "a sdiv b = \<bar>a\<bar> div \<bar>b\<bar>"
        using \<open>a = - 32768\<close> False assms(1) by (simp add: signed_divide_int_def sgn_if)
      ultimately have "a sdiv b \<le> 16384" using \<open>a = - 32768\<close> by simp
      with low show ?thesis by simp
    qed
  qed
qed

lemma cells_two_apart: "cells_disjoint (p - 2) (p - 4 :: 16 word)"
  by (simp add: cells_disjoint_def)

lemma DIVMOD_eq:
  assumes "PStack_get s (- 2) \<noteq> 0"
  shows "DIVMOD s = Inr (s\<lparr>Memory :=
      Mem16_upd (PSP s - 2) (word_of_int (sint (PStack_get s (- 4)) sdiv sint (PStack_get s (- 2))))
        (Mem16_upd (PSP s - 4) (word_of_int (sint (PStack_get s (- 4)) smod sint (PStack_get s (- 2))))
          (Memory s))\<rparr>)"
  using assms by (simp add: DIVMOD_def Let_def PStack_set_eq)

text \<open>
  Claim C6, as amended. In every state whose cells at \<open>PSP - 4\<close> and \<open>PSP - 2\<close>
  hold the signed values \<open>x\<close> and \<open>y\<close>, \<open>y\<close> not zero, \<^verbatim>\<open>DIVMOD\<close> returns normally
  with \<open>PSP\<close> unchanged, leaves at \<open>PSP - 4\<close> the remainder and at \<open>PSP - 2\<close> the
  quotient, both reduced to 16 bits. The remainder always reads back as itself;
  so does the quotient unless \<open>x = -32768\<close> and \<open>y = -1\<close>. Quotient \<open>q\<close> and
  remainder \<open>r\<close> are those of truncating division: \<open>q * y + r = x\<close>, \<open>r\<close> is
  smaller than \<open>y\<close> in absolute value and has the sign of \<open>x\<close>. In particular 7
  and 2 give 3 and 1, and -7 and 2 give -3 and -1.
\<close>

theorem DIVMOD_truncating:
  assumes "PStack_get s (- 4) = x" and "PStack_get s (- 2) = y" and "y \<noteq> 0"
  shows "(\<exists>s'. DIVMOD s = Inr s' \<and> PSP s' = PSP s \<and>
           PStack_get s' (- 2) = word_of_int (sint x sdiv sint y) \<and>
           PStack_get s' (- 4) = word_of_int (sint x smod sint y) \<and>
           sint (PStack_get s' (- 4)) = sint x smod sint y \<and>
           (\<not> (x = - 32768 \<and> y = - 1) \<longrightarrow> sint (PStack_get s' (- 2)) = sint x sdiv sint y) \<and>
           (x = 7 \<and> y = 2 \<longrightarrow> PStack_get s' (- 2) = 3 \<and> PStack_get s' (- 4) = 1) \<and>
           (x = - 7 \<and> y = 2 \<longrightarrow> PStack_get s' (- 2) = - 3 \<and> PStack_get s' (- 4) = - 1)) \<and>
         (sint x sdiv sint y) * sint y + sint x smod sint y = sint x \<and>
         \<bar>sint x smod sint y\<bar> < \<bar>sint y\<bar> \<and>
         (0 \<le> sint x \<longrightarrow> 0 \<le> sint x smod sint y) \<and>
         (sint x \<le> 0 \<longrightarrow> sint x smod sint y \<le> 0)"
proof -
  let ?q = "sint x sdiv sint y" and ?r = "sint x smod sint y"
  let ?s' = "s\<lparr>Memory := Mem16_upd (PSP s - 2) (word_of_int ?q)
        (Mem16_upd (PSP s - 4) (word_of_int ?r) (Memory s))\<rparr>"
  have y0: "sint y \<noteq> 0" using assms(3) by (simp add: signed_eq_0_iff)
  have run: "DIVMOD s = Inr ?s'"
    using DIVMOD_eq [of s] assms by simp
  have q: "PStack_get ?s' (- 2) = word_of_int ?q"
    by (simp add: PStack_get_eq Mem16_upd_same)
  have r: "PStack_get ?s' (- 4) = word_of_int ?r"
    by (simp add: PStack_get_eq Mem16_upd_other [OF cells_two_apart] Mem16_upd_same)
  have rs: "sint (PStack_get ?s' (- 4)) = ?r"
    unfolding r using smod_fits16 [OF y0, of "sint x"] sint_range16 [of y]
    by (intro sint_word_of_int16) simp_all
  have qs: "sint (PStack_get ?s' (- 2)) = ?q" if "\<not> (x = - 32768 \<and> y = - 1)"
  proof -
    have "\<not> (sint x = - 32768 \<and> sint y = - 1)"
    proof
      assume a: "sint x = - 32768 \<and> sint y = - 1"
      then have "word_of_int (sint x) = (word_of_int (- 32768) :: 16 word)"
        and "word_of_int (sint y) = (word_of_int (- 1) :: 16 word)" by simp_all
      then have "x = - 32768 \<and> y = - 1" by simp
      with that show False by simp
    qed
    then show ?thesis
      unfolding q using sdiv_fits16 [OF y0, of "sint x"] sint_range16 [of x]
      by (intro sint_word_of_int16) simp_all
  qed
  have e1: "PStack_get ?s' (- 2) = 3 \<and> PStack_get ?s' (- 4) = 1" if "x = 7 \<and> y = 2"
    unfolding q r using that by simp
  have e2: "PStack_get ?s' (- 2) = - 3 \<and> PStack_get ?s' (- 4) = - 1" if "x = - 7 \<and> y = 2"
    unfolding q r using that by simp
  have all: "DIVMOD s = Inr ?s' \<and> PSP ?s' = PSP s \<and>
           PStack_get ?s' (- 2) = word_of_int ?q \<and>
           PStack_get ?s' (- 4) = word_of_int ?r \<and>
           sint (PStack_get ?s' (- 4)) = ?r \<and>
           (\<not> (x = - 32768 \<and> y = - 1) \<longrightarrow> sint (PStack_get ?s' (- 2)) = ?q) \<and>
           (x = 7 \<and> y = 2 \<longrightarrow> PStack_get ?s' (- 2) = 3 \<and> PStack_get ?s' (- 4) = 1) \<and>
           (x = - 7 \<and> y = 2 \<longrightarrow> PStack_get ?s' (- 2) = - 3 \<and> PStack_get ?s' (- 4) = - 1)"
    using run q r rs qs e1 e2 by simp
  have ex: "\<exists>s'. DIVMOD s = Inr s' \<and> PSP s' = PSP s \<and>
           PStack_get s' (- 2) = word_of_int ?q \<and>
           PStack_get s' (- 4) = word_of_int ?r \<and>
           sint (PStack_get s' (- 4)) = ?r \<and>
           (\<not> (x = - 32768 \<and> y = - 1) \<longrightarrow> sint (PStack_get s' (- 2)) = ?q) \<and>
           (x = 7 \<and> y = 2 \<longrightarrow> PStack_get s' (- 2) = 3 \<and> PStack_get s' (- 4) = 1) \<and>
           (x = - 7 \<and> y = 2 \<longrightarrow> PStack_get s' (- 2) = - 3 \<and> PStack_get s' (- 4) = - 1)"
  proof (rule exI)
    show "DIVMOD s = Inr ?s' \<and> PSP ?s' = PSP s \<and>
           PStack_get ?s' (- 2) = word_of_int ?q \<and>
           PStack_get ?s' (- 4) = word_of_int ?r \<and>
           sint (PStack_get ?s' (- 4)) = ?r \<and>
           (\<not> (x = - 32768 \<and> y = - 1) \<longrightarrow> sint (PStack_get ?s' (- 2)) = ?q) \<and>
           (x = 7 \<and> y = 2 \<longrightarrow> PStack_get ?s' (- 2) = 3 \<and> PStack_get ?s' (- 4) = 1) \<and>
           (x = - 7 \<and> y = 2 \<longrightarrow> PStack_get ?s' (- 2) = - 3 \<and> PStack_get ?s' (- 4) = - 1)"
      by (fact all)
  qed
  have 1: "?q * sint y + ?r = sint x" by (rule sdiv_mult_smod_eq)
  have 2: "\<bar>?r\<bar> < \<bar>sint y\<bar>" using smod_int_range [OF y0, of "sint x"] by auto
  have 3: "(0 \<le> sint x \<longrightarrow> 0 \<le> ?r) \<and> (sint x \<le> 0 \<longrightarrow> ?r \<le> 0)"
    using smod_int_compares [of "sint x" "sint y"] y0 by (cases "0 < sint y") auto
  from 3 have pos3: "0 \<le> sint x \<longrightarrow> 0 \<le> ?r" and neg3: "sint x \<le> 0 \<longrightarrow> ?r \<le> 0"
    by blast+
  show ?thesis
    by (rule conjI [OF ex conjI [OF 1 conjI [OF 2 conjI [OF pos3 neg3]]]])
qed

text \<open>
  The witness: -7 and 2 in the cells at \<open>0x1000\<close> and \<open>0x1002\<close>, \<open>PSP = 0x1004\<close>.
\<close>

theorem DIVMOD_truncating_witness:
  "PStack_get (boot\<lparr>Memory := Mem16_upd 0x1002 2 (Mem16_upd 0x1000 (- 7) (Memory boot)),
      PSP := 0x1004\<rparr>) (- 4) = - 7 \<and>
   PStack_get (boot\<lparr>Memory := Mem16_upd 0x1002 2 (Mem16_upd 0x1000 (- 7) (Memory boot)),
      PSP := 0x1004\<rparr>) (- 2) = 2 \<and>
   (2 :: 16 word) \<noteq> 0 \<and>
   (- 7 :: 16 word) \<noteq> - 32768 \<and>
   \<not> isl (DIVMOD (boot\<lparr>Memory := Mem16_upd 0x1002 2 (Mem16_upd 0x1000 (- 7) (Memory boot)),
      PSP := 0x1004\<rparr>)) \<and>
   sint (PStack_get (projr (DIVMOD (boot\<lparr>Memory :=
      Mem16_upd 0x1002 2 (Mem16_upd 0x1000 (- 7) (Memory boot)), PSP := 0x1004\<rparr>))) (- 2)) = - 3 \<and>
   sint (PStack_get (projr (DIVMOD (boot\<lparr>Memory :=
      Mem16_upd 0x1002 2 (Mem16_upd 0x1000 (- 7) (Memory boot)), PSP := 0x1004\<rparr>))) (- 4)) = - 1"
proof -
  let ?s = "boot\<lparr>Memory := Mem16_upd 0x1002 2 (Mem16_upd 0x1000 (- 7) (Memory boot)),
      PSP := 0x1004\<rparr>"
  have dis: "cells_disjoint (0x1002 :: 16 word) 0x1000" by (simp add: cells_disjoint_def)
  have 1: "PStack_get ?s (- 4) = - 7"
    by (simp add: PStack_get_eq Mem16_upd_other [OF dis] Mem16_upd_same)
  have 2: "PStack_get ?s (- 2) = 2"
    by (simp add: PStack_get_eq Mem16_upd_same)
  have 3: "(2 :: 16 word) \<noteq> 0" by simp
  have 4: "(- 7 :: 16 word) \<noteq> - 32768" by simp
  from DIVMOD_truncating [OF 1 2 3] obtain s' where
    run: "DIVMOD ?s = Inr s'" and
    q: "PStack_get s' (- 2) = word_of_int (sint (- 7 :: 16 word) sdiv sint (2 :: 16 word))" and
    r: "PStack_get s' (- 4) = word_of_int (sint (- 7 :: 16 word) smod sint (2 :: 16 word))"
    by blast
  have "sint (PStack_get s' (- 2)) = - 3" unfolding q by simp
  moreover have "sint (PStack_get s' (- 4)) = - 1" unfolding r by simp
  ultimately show ?thesis using 1 2 3 4 by (simp add: run)
qed

text \<open>
  Claim C6 as stated fails for \<open>x = -32768\<close> and \<open>y = -1\<close>: the quotient of the
  truncating division is 32768, and the cell left at \<open>PSP - 2\<close> reads -32768.
\<close>

theorem DIVMOD_overflow_counterexample:
  "PStack_get (boot\<lparr>Memory := Mem16_upd 0x1002 (- 1) (Mem16_upd 0x1000 (- 32768) (Memory boot)),
      PSP := 0x1004\<rparr>) (- 4) = - 32768 \<and>
   PStack_get (boot\<lparr>Memory := Mem16_upd 0x1002 (- 1) (Mem16_upd 0x1000 (- 32768) (Memory boot)),
      PSP := 0x1004\<rparr>) (- 2) = - 1 \<and>
   sint (- 32768 :: 16 word) sdiv sint (- 1 :: 16 word) = 32768 \<and>
   \<not> isl (DIVMOD (boot\<lparr>Memory :=
      Mem16_upd 0x1002 (- 1) (Mem16_upd 0x1000 (- 32768) (Memory boot)), PSP := 0x1004\<rparr>)) \<and>
   sint (PStack_get (projr (DIVMOD (boot\<lparr>Memory :=
      Mem16_upd 0x1002 (- 1) (Mem16_upd 0x1000 (- 32768) (Memory boot)), PSP := 0x1004\<rparr>))) (- 2))
     = - 32768"
proof -
  let ?s = "boot\<lparr>Memory := Mem16_upd 0x1002 (- 1) (Mem16_upd 0x1000 (- 32768) (Memory boot)),
      PSP := 0x1004\<rparr>"
  have dis: "cells_disjoint (0x1002 :: 16 word) 0x1000" by (simp add: cells_disjoint_def)
  have 1: "PStack_get ?s (- 4) = - 32768"
    by (simp add: PStack_get_eq Mem16_upd_other [OF dis] Mem16_upd_same)
  have 2: "PStack_get ?s (- 2) = - 1"
    by (simp add: PStack_get_eq Mem16_upd_same)
  have 3: "sint (- 32768 :: 16 word) sdiv sint (- 1 :: 16 word) = 32768" by simp
  have nz: "PStack_get ?s (- 2) \<noteq> 0" unfolding 2 by simp
  have "sint (PStack_get (projr (DIVMOD ?s)) (- 2)) = - 32768"
    unfolding DIVMOD_eq [OF nz] 1 2
    by (simp add: PStack_get_eq Mem16_upd_same)
  moreover have "\<not> isl (DIVMOD ?s)" unfolding DIVMOD_eq [OF nz] by simp
  ultimately show ?thesis using 1 2 3 by simp
qed

section \<open>Push, DUP and two pops (claim C3)\<close>

lemma DUP_eq:
  "DUP s = s\<lparr>Memory := Mem16_upd (PSP s + PSP s) (Mem16 (Memory s) (PSP s - 2)) (Memory s),
      PSP := PSP s + 2\<rparr>"
  by (simp add: DUP_def PStack_Push16_eq PStack_get_eq)

lemma cells_four_apart: "cells_disjoint (a + 4) (a :: 16 word)"
  by (simp add: cells_disjoint_def)

text \<open>
  Claim C3, as amended. For every machine state and every cell \<open>v\<close>: after \<open>v\<close>
  is pushed onto the parameter stack and \<^verbatim>\<open>DUP\<close> is executed, \<open>PSP\<close> is 2 above its
  value just after the push; the first of two successive pops brings \<open>PSP\<close> back
  to that value, the second yields \<open>v\<close> and brings \<open>PSP\<close> back to its value before
  the push. (What the first pop yields is left open.)
\<close>

theorem push_DUP_pops:
  "PSP (DUP (PStack_Push16 v s)) = PSP (PStack_Push16 v s) + 2 \<and>
   PSP (snd (PStack_Pop16 (DUP (PStack_Push16 v s)))) = PSP (PStack_Push16 v s) \<and>
   fst (PStack_Pop16 (snd (PStack_Pop16 (DUP (PStack_Push16 v s))))) = v \<and>
   PSP (snd (PStack_Pop16 (snd (PStack_Pop16 (DUP (PStack_Push16 v s)))))) = PSP s"
proof -
  let ?p = "PSP s"
  let ?m1 = "Mem16_upd (?p + ?p) v (Memory s)"
  have dis: "cells_disjoint (?p + ?p + 4) (?p + ?p)" by (rule cells_four_apart)
  have "Mem16 (Mem16_upd (?p + ?p + 4) w ?m1) (?p + ?p) = v" for w
    by (simp only: Mem16_upd_other [OF dis] Mem16_upd_same)
  then show ?thesis
    by (simp add: DUP_eq PStack_Pop16_eq PStack_Push16_eq)
qed

text \<open>
  Claim C3 as stated fails in the starting state with \<open>v = 5\<close>: the push writes
  5 at \<open>0x2000\<close>, \<^verbatim>\<open>DUP\<close> copies the cell at \<open>PSP - 2 = 0x1000\<close>, which holds 0, so
  the first pop yields 0; and the two pops leave \<open>PSP\<close> at \<open>0x1000\<close>, its value
  before the push, not at \<open>0x1002\<close>, its value just after.
\<close>

theorem push_DUP_counterexample:
  "fst (PStack_Pop16 (DUP (PStack_Push16 5 boot))) = 0 \<and>
   PSP (PStack_Push16 5 boot) = 0x1002 \<and>
   PSP (snd (PStack_Pop16 (snd (PStack_Pop16 (DUP (PStack_Push16 5 boot)))))) = 0x1000"
proof -
  have dis: "cells_disjoint (0x2000 :: 16 word) 0x1000" by (simp add: cells_disjoint_def)
  have "Mem16 (Mem16_upd 0x2000 5 (\<lambda>_. 0)) 0x1000 = 0"
    by (simp add: Mem16_upd_other [OF dis]) (simp add: Mem16_def)
  then show ?thesis
    by (simp add: DUP_eq PStack_Pop16_eq PStack_Push16_eq boot_def Mem16_upd_same)
qed

section \<open>The variable primitive (claim C4)\<close>

text \<open>
  Claim C4 says that \<^verbatim>\<open>DOVAR\<close> pushes one 16-bit cell and raises \<open>PSP\<close> by 2. The
  program pushes an \<^verbatim>\<open>int\<close>: in every state \<^verbatim>\<open>DOVAR\<close> writes four bytes and
  raises \<open>PSP\<close> by 4 (\<open>IP\<close> it leaves alone). In the state below, a thread cell at
  \<open>0x3000\<close> names a variable word whose code field at \<open>0x3010\<close> holds opcode 2;
  one dispatch cycle runs \<^verbatim>\<open>DOVAR\<close>, \<open>PSP\<close> goes from \<open>0x1000\<close> to \<open>0x1004\<close>, and
  a pop then yields 0, not the address \<open>0x3012\<close>.
\<close>

theorem DOVAR_pushes_four_bytes:
  "PSP (DOVAR s) = PSP s + 4 \<and>
   IP (DOVAR s) = IP s \<and>
   Memory (DOVAR s)
     = Mem32_upd (PSP s + PSP s) (ucast (Mem16 (Memory s) (IP s - 2)) + 2) (Memory s) \<and>
   cycle (boot\<lparr>Memory := Mem16_upd 0x3010 2 (Mem16_upd 0x3000 0x3010 (Memory boot)),
      IP := 0x3000\<rparr>)
     = Inr (DOVAR (boot\<lparr>Memory := Mem16_upd 0x3010 2 (Mem16_upd 0x3000 0x3010 (Memory boot)),
      IP := 0x3002\<rparr>)) \<and>
   PSP (DOVAR (boot\<lparr>Memory := Mem16_upd 0x3010 2 (Mem16_upd 0x3000 0x3010 (Memory boot)),
      IP := 0x3002\<rparr>)) = 0x1004 \<and>
   fst (PStack_Pop16 (DOVAR (boot\<lparr>Memory :=
      Mem16_upd 0x3010 2 (Mem16_upd 0x3000 0x3010 (Memory boot)), IP := 0x3002\<rparr>))) = 0"
proof -
  let ?m = "Mem16_upd 0x3010 2 (Mem16_upd 0x3000 0x3010 (Memory boot))"
  have dis: "cells_disjoint (0x3010 :: 16 word) 0x3000" by (simp add: cells_disjoint_def)
  have t: "Mem16 ?m 0x3000 = 0x3010" by (simp add: Mem16_upd_other [OF dis] Mem16_upd_same)
  have o: "Mem16 ?m 0x3010 = 2" by (simp add: Mem16_upd_same)
  have c: "cycle (boot\<lparr>Memory := ?m, IP := 0x3000\<rparr>) = Inr (DOVAR (boot\<lparr>Memory := ?m, IP := 0x3002\<rparr>))"
    by (simp add: cycle_def t o call_native_def NativeFuncs_def)
  have p: "PSP (DOVAR (boot\<lparr>Memory := ?m, IP := 0x3002\<rparr>)) = 0x1004"
    by (simp add: DOVAR_eq boot_def)
  have "Mem16 (Mem32_upd 0x2000 w ?m) 0x2004 = 0" for w
    by (simp add: Mem16_def Mem32_upd_def Mem16_upd_def boot_def)
  then have v: "fst (PStack_Pop16 (DOVAR (boot\<lparr>Memory := ?m, IP := 0x3002\<rparr>))) = 0"
    by (simp add: PStack_Pop16_eq DOVAR_eq boot_def)
  show ?thesis using c p v by (simp add: DOVAR_eq)
qed

section \<open>Add, subtract, multiply (claim C9)\<close>

lemma ADD_eq:
  "ADD s = s\<lparr>PSP := PSP s - 2,
      Memory := Mem16_upd (PSP s - 4)
        (Mem16 (Memory s) (PSP s - 4) + Mem16 (Memory s) ((PSP s - 2) + (PSP s - 2))) (Memory s)\<rparr>"
  by (simp add: ADD_def PStack_Pop16_eq PStack_set_eq PStack_get_eq)

lemma SUB_eq:
  "SUB s = s\<lparr>PSP := PSP s - 2,
      Memory := Mem16_upd (PSP s - 4)
        (Mem16 (Memory s) (PSP s - 4) - Mem16 (Memory s) ((PSP s - 2) + (PSP s - 2))) (Memory s)\<rparr>"
  by (simp add: SUB_def PStack_Pop16_eq PStack_set_eq PStack_get_eq)

lemma MUL_eq:
  "MUL s = s\<lparr>PSP := PSP s - 2,
      Memory := Mem16_upd (PSP s - 4)
        (Mem16 (Memory s) (PSP s - 4) * Mem16 (Memory s) ((PSP s - 2) + (PSP s - 2))) (Memory s)\<rparr>"
  by (simp add: MUL_def PStack_Pop16_eq PStack_set_eq PStack_get_eq)

text \<open>
  Claim C9 says that \<^verbatim>\<open>ADD\<close>, \<^verbatim>\<open>SUB\<close> and \<^verbatim>\<open>MUL\<close> replace the top two cells of the
  parameter stack by one result, so that 32767 and 1 add up to -32768. The
  arithmetic of the program does wrap modulo \<open>2^16\<close> and nothing traps, but its
  operands are not the top two cells: in every state it combines the cell at
  \<open>PSP - 4\<close> with the cell at twice \<open>PSP - 2\<close>, and stores the result at \<open>PSP - 4\<close>,
  where no pop reads. With 32767 and 1 pushed in the starting state, \<^verbatim>\<open>ADD\<close>
  leaves 1 in the cell below \<open>PSP\<close> and a pop yields 32767; with 32767 and 1 in
  the cells at \<open>PSP - 4\<close> and \<open>PSP - 2\<close>, \<^verbatim>\<open>ADD\<close> leaves 32767.
\<close>

theorem ADD_misses_operands:
  "ADD s = s\<lparr>PSP := PSP s - 2,
      Memory := Mem16_upd (PSP s - 4)
        (Mem16 (Memory s) (PSP s - 4) + Mem16 (Memory s) ((PSP s - 2) + (PSP s - 2))) (Memory s)\<rparr> \<and>
   PStack_get (ADD (PStack_Push16 1 (PStack_Push16 32767 boot))) (- 2) = 1 \<and>
   fst (PStack_Pop16 (ADD (PStack_Push16 1 (PStack_Push16 32767 boot)))) = 32767 \<and>
   fst (PStack_Pop16 (SUB (PStack_Push16 1 (PStack_Push16 32767 boot)))) = 32767 \<and>
   fst (PStack_Pop16 (MUL (PStack_Push16 1 (PStack_Push16 32767 boot)))) = 32767 \<and>
   PStack_get (boot\<lparr>Memory := Mem16_upd 0x1002 1 (Mem16_upd 0x1000 32767 (Memory boot)),
      PSP := 0x1004\<rparr>) (- 4) = 32767 \<and>
   PStack_get (boot\<lparr>Memory := Mem16_upd 0x1002 1 (Mem16_upd 0x1000 32767 (Memory boot)),
      PSP := 0x1004\<rparr>) (- 2) = 1 \<and>
   PStack_get (ADD (boot\<lparr>Memory := Mem16_upd 0x1002 1 (Mem16_upd 0x1000 32767 (Memory boot)),
      PSP := 0x1004\<rparr>)) (- 2) = 32767 \<and>
   (32767 :: 16 word) + 1 = - 32768"
proof -
  let ?t = "PStack_Push16 1 (PStack_Push16 32767 boot)"
  let ?m = "Mem16_upd 0x2004 1 (Mem16_upd 0x2000 32767 (\<lambda>_. 0))"
  have t: "?t = boot\<lparr>Memory := ?m, PSP := 0x1004\<rparr>"
    by (simp add: PStack_Push16_eq boot_def)
  have d1: "cells_disjoint (0x2004 :: 16 word) 0x1000" by (simp add: cells_disjoint_def)
  have d2: "cells_disjoint (0x2000 :: 16 word) 0x1000" by (simp add: cells_disjoint_def)
  have d3: "cells_disjoint (0x1000 :: 16 word) 0x2000" by (simp add: cells_disjoint_def)
  have d4: "cells_disjoint (0x2004 :: 16 word) 0x2000" by (simp add: cells_disjoint_def)
  have z: "Mem16 (\<lambda>_. 0) a = 0" for a by (simp add: Mem16_def)
  have m0: "Mem16 ?m 0x1000 = 0"
    by (simp only: Mem16_upd_other [OF d1] Mem16_upd_other [OF d2] z)
  have m4: "Mem16 ?m 0x2004 = 1" by (simp only: Mem16_upd_same)
  have top: "Mem16 (Mem16_upd 0x1000 w ?m) 0x2000 = 32767" for w
    by (simp only: Mem16_upd_other [OF d3] Mem16_upd_other [OF d4] Mem16_upd_same)
  have a1: "PStack_get (ADD ?t) (- 2) = 1"
    unfolding t by (simp add: ADD_eq PStack_get_eq boot_def m0 m4 Mem16_upd_same)
  have a2: "fst (PStack_Pop16 (ADD ?t)) = 32767"
    unfolding t by (simp add: ADD_eq PStack_Pop16_eq boot_def top)
  have a3: "fst (PStack_Pop16 (SUB ?t)) = 32767"
    unfolding t by (simp add: SUB_eq PStack_Pop16_eq boot_def top)
  have a4: "fst (PStack_Pop16 (MUL ?t)) = 32767"
    unfolding t by (simp add: MUL_eq PStack_Pop16_eq boot_def top)
  let ?n = "Mem16_upd 0x1002 1 (Mem16_upd 0x1000 32767 (\<lambda>_. 0))"
  have e1: "cells_disjoint (0x1002 :: 16 word) 0x1000" by (simp add: cells_disjoint_def)
  have e2: "cells_disjoint (0x1002 :: 16 word) 0x2004" by (simp add: cells_disjoint_def)
  have e3: "cells_disjoint (0x1000 :: 16 word) 0x2004" by (simp add: cells_disjoint_def)
  have n0: "Mem16 ?n 0x1000 = 32767" by (simp only: Mem16_upd_other [OF e1] Mem16_upd_same)
  have n2: "Mem16 ?n 0x1002 = 1" by (simp only: Mem16_upd_same)
  have n4: "Mem16 ?n 0x2004 = 0" by (simp only: Mem16_upd_other [OF e2] Mem16_upd_other [OF e3] z)
  have b1: "PStack_get (boot\<lparr>Memory := Mem16_upd 0x1002 1 (Mem16_upd 0x1000 32767 (Memory boot)),
      PSP := 0x1004\<rparr>) (- 4) = 32767"
    by (simp add: PStack_get_eq boot_def n0)
  have b2: "PStack_get (boot\<lparr>Memory := Mem16_upd 0x1002 1 (Mem16_upd 0x1000 32767 (Memory boot)),
      PSP := 0x1004\<rparr>) (- 2) = 1"
    by (simp add: PStack_get_eq boot_def n2)
  have b3: "PStack_get (ADD (boot\<lparr>Memory := Mem16_upd 0x1002 1 (Mem16_upd 0x1000 32767 (Memory boot)),
      PSP := 0x1004\<rparr>)) (- 2) = 32767"
    by (simp add: ADD_eq PStack_get_eq boot_def n0 n4 Mem16_upd_same)
  have w: "(32767 :: 16 word) + 1 = - 32768" by simp
  show ?thesis
    by (rule conjI [OF ADD_eq conjI [OF a1 conjI [OF a2 conjI [OF a3 conjI [OF a4
          conjI [OF b1 conjI [OF b2 conjI [OF b3 w]]]]]]]])
qed

section \<open>Call and return (claim C2)\<close>

text \<open>
  Claim C2, as amended. For every machine state: \<^verbatim>\<open>DOCOL\<close> pushes the current
  \<open>IP\<close> onto the return stack and sets \<open>IP\<close> to \<open>target + 2\<close>, where \<open>target\<close> is the
  cell at \<open>IP - 2\<close> as read after the push; that is the cell the state had at
  \<open>IP - 2\<close> whenever the cell the push writes (at \<open>RSP + RSP\<close>) shares no byte
  with it. An \<^verbatim>\<open>EXIT\<close> dispatched next pops the saved value back into \<open>IP\<close> and
  restores \<open>RSP\<close>; so does an \<^verbatim>\<open>EXIT\<close> dispatched after any matched sequence of
  return-stack pushes and pops, nested calls and returns among them, that
  never has 16384 or more cells above the saved one.
\<close>

theorem DOCOL_EXIT_call_return:
  "RSP (DOCOL s) = RSP s + 2 \<and>
   fst (RStack_Pop16 (DOCOL s)) = IP s \<and>
   IP (DOCOL s) = Mem16 (Memory (DOCOL s)) (IP s - 2) + 2 \<and>
   (cells_disjoint (RSP s + RSP s) (IP s - 2) \<longrightarrow>
      IP (DOCOL s) = Mem16 (Memory s) (IP s - 2) + 2) \<and>
   IP (EXIT (DOCOL s)) = IP s \<and>
   RSP (EXIT (DOCOL s)) = RSP s \<and>
   (matched 0 ops \<and> depth 0 ops < 16384 \<longrightarrow>
      IP (EXIT (rsteps ops (DOCOL s))) = IP s \<and>
      RSP (EXIT (rsteps ops (DOCOL s))) = RSP s)"
proof -
  have 1: "RSP (DOCOL s) = RSP s + 2" by (simp add: DOCOL_eq)
  have 2: "fst (RStack_Pop16 (DOCOL s)) = IP s"
    by (simp add: DOCOL_eq RStack_Pop16_eq Mem16_upd_same)
  have 3: "IP (DOCOL s) = Mem16 (Memory (DOCOL s)) (IP s - 2) + 2" by (simp add: DOCOL_eq)
  have 4: "cells_disjoint (RSP s + RSP s) (IP s - 2) \<longrightarrow>
      IP (DOCOL s) = Mem16 (Memory s) (IP s - 2) + 2"
  proof
    assume dis: "cells_disjoint (RSP s + RSP s) (IP s - 2)"
    have "Mem16 (Mem16_upd (RSP s + RSP s) (IP s) (Memory s)) (IP s - 2)
        = Mem16 (Memory s) (IP s - 2)"
      by (rule Mem16_upd_other [OF dis])
    then show "IP (DOCOL s) = Mem16 (Memory s) (IP s - 2) + 2"
      unfolding DOCOL_eq by simp
  qed
  have 5: "IP (EXIT (DOCOL s)) = IP s" and 6: "RSP (EXIT (DOCOL s)) = RSP s"
    using DOCOL_EXIT [of s] by simp_all
  have 7: "matched 0 ops \<and> depth 0 ops < 16384 \<longrightarrow>
      IP (EXIT (rsteps ops (DOCOL s))) = IP s \<and> RSP (EXIT (rsteps ops (DOCOL s))) = RSP s"
    using nested_return [of ops s] by blast
  show ?thesis
    by (rule conjI [OF 1 conjI [OF 2 conjI [OF 3 conjI [OF 4 conjI [OF 5 conjI [OF 6 7]]]]]])
qed

text \<open>
  The witness: a thread cell at \<open>0x2000\<close> naming a colon word whose code field
  is at \<open>0x2100\<close>, \<open>IP = 0x2002\<close>, \<open>RSP = 0\<close>; between the call and its return a
  nested call, a push, a pop and a nested return.
\<close>

theorem DOCOL_EXIT_call_return_witness:
  "cells_disjoint
     (RSP (boot\<lparr>Memory := Mem16_upd 0x2000 0x2100 (Memory boot), IP := 0x2002\<rparr>)
       + RSP (boot\<lparr>Memory := Mem16_upd 0x2000 0x2100 (Memory boot), IP := 0x2002\<rparr>))
     (IP (boot\<lparr>Memory := Mem16_upd 0x2000 0x2100 (Memory boot), IP := 0x2002\<rparr>) - 2) \<and>
   IP (DOCOL (boot\<lparr>Memory := Mem16_upd 0x2000 0x2100 (Memory boot), IP := 0x2002\<rparr>)) = 0x2102 \<and>
   matched 0 [RCall, RPush 7, RPop, RExit] \<and>
   depth 0 [RCall, RPush 7, RPop, RExit] < 16384 \<and>
   IP (EXIT (rsteps [RCall, RPush 7, RPop, RExit]
     (DOCOL (boot\<lparr>Memory := Mem16_upd 0x2000 0x2100 (Memory boot), IP := 0x2002\<rparr>)))) = 0x2002"
proof -
  let ?s = "boot\<lparr>Memory := Mem16_upd 0x2000 0x2100 (Memory boot), IP := 0x2002\<rparr>"
  let ?ops = "[RCall, RPush 7, RPop, RExit]"
  have regs: "RSP ?s = 0" "IP ?s = 0x2002" by (simp_all add: boot_def)
  have dis: "cells_disjoint (RSP ?s + RSP ?s) (IP ?s - 2)"
    unfolding regs by (simp add: cells_disjoint_def)
  have m: "matched 0 ?ops" by simp
  have d: "depth 0 ?ops < 16384" by simp
  have t: "Mem16 (Memory ?s) (IP ?s - 2) + 2 = 0x2102"
    unfolding regs by (simp add: Mem16_upd_same)
  from DOCOL_EXIT_call_return [of ?s ?ops] dis m d
  have a: "IP (DOCOL ?s) = Mem16 (Memory ?s) (IP ?s - 2) + 2"
    and b: "IP (EXIT (rsteps ?ops (DOCOL ?s))) = IP ?s" by blast+
  have c: "IP (DOCOL ?s) = 0x2102" by (simp only: a t)
  have e: "IP (EXIT (rsteps ?ops (DOCOL ?s))) = 0x2002" by (simp only: b regs)
  show ?thesis
    by (rule conjI [OF dis conjI [OF c conjI [OF m conjI [OF d e]]]])
qed

text \<open>
  Claim C2 as stated fails twice. In the first turn of the loop (\<open>IP = 0\<close>,
  \<open>RSP = 0\<close>, zeroed memory) the opcode found is 0, \<^verbatim>\<open>DOCOL\<close> runs with \<open>IP = 2\<close>;
  the cell at \<open>IP - 2\<close> holds 0, so \<open>target + 2\<close> is 2, but the push has written 2
  over that cell before it is read and \<open>IP\<close> becomes 4. And 16384 pushes
  between a call and its return wrap the doubled address around onto the saved
  cell: after the matching 16384 pops, \<^verbatim>\<open>EXIT\<close> returns to 0, not to the saved
  \<open>0x2002\<close>.
\<close>

theorem DOCOL_EXIT_counterexample:
  "cycle boot = Inr (DOCOL (boot\<lparr>IP := 2\<rparr>)) \<and>
   Mem16 (Memory (boot\<lparr>IP := 2\<rparr>)) (IP (boot\<lparr>IP := 2\<rparr>) - 2) + 2 = 2 \<and>
   IP (DOCOL (boot\<lparr>IP := 2\<rparr>)) = 4 \<and>
   matched 0 (replicate 16384 (RPush 0) @ replicate 16384 RPop) \<and>
   IP (boot\<lparr>IP := 0x2002\<rparr>) = 0x2002 \<and>
   IP (EXIT (rsteps (replicate 16384 (RPush 0) @ replicate 16384 RPop)
        (DOCOL (boot\<lparr>IP := 0x2002\<rparr>)))) = 0"
proof -
  have z: "Mem16 (\<lambda>_. 0) a = 0" for a by (simp add: Mem16_def)
  have 1: "cycle boot = Inr (DOCOL (boot\<lparr>IP := 2\<rparr>))"
    by (simp add: cycle_def call_native_def NativeFuncs_def boot_def z)
  have 2: "Mem16 (Memory (boot\<lparr>IP := 2\<rparr>)) (IP (boot\<lparr>IP := 2\<rparr>) - 2) + 2 = 2"
    by (simp add: boot_def z)
  have 3: "IP (DOCOL (boot\<lparr>IP := 2\<rparr>)) = 4"
    by (simp add: DOCOL_eq boot_def Mem16_upd_same)
  have 4: "matched 0 (replicate 16384 (RPush 0) @ replicate 16384 RPop)"
    by (rule matched_pushes_pops)
  have 5: "IP (boot\<lparr>IP := 0x2002\<rparr>) = 0x2002" by simp
  have n: "(16384 :: nat) = Suc 16383" by simp
  have w: "(4 * of_nat 16384 :: 16 word) = 0" by simp
  have 6: "IP (EXIT (rsteps (replicate 16384 (RPush 0) @ replicate 16384 RPop)
        (DOCOL (boot\<lparr>IP := 0x2002\<rparr>)))) = 0"
    by (rule wrapped_return [OF n w])
  show ?thesis
    by (rule conjI [OF 1 conjI [OF 2 conjI [OF 3 conjI [OF 4 conjI [OF 5 6]]]]])
qed

end
